theory Spec2Isabelle
  imports Complex_Main
begin

section \<open>Python and numpy primitives used by crop.py\<close>

text \<open>
  Exceptions of the source are values: every function that can raise returns
  \<open>py_error + 'a\<close>, with \<open>Inl\<close> the exception.  Spacings are floats in the
  source; they are modelled as reals, so rounding error of the float division is
  not part of the model, only its exact quotient.
\<close>

datatype py_error = ValueError | IndexError | TypeError | UnboundLocalError | OverflowError

definition ebind :: "py_error + 'a \<Rightarrow> ('a \<Rightarrow> py_error + 'b) \<Rightarrow> py_error + 'b" where
  "ebind m f = (case m of Inl e \<Rightarrow> Inl e | Inr v \<Rightarrow> f v)"

text \<open>\<open>int(r)\<close> on a float truncates towards zero.\<close>

definition py_int :: "real \<Rightarrow> int" where
  "py_int r = (if 0 \<le> r then \<lfloor>r\<rfloor> else \<lceil>r\<rceil>)"

text \<open>
  \<open>int(c / s)\<close> for a positive constant \<open>c\<close> and a numpy float \<open>s\<close>: the division by a
  zero spacing gives \<open>inf\<close>, and \<open>int(inf)\<close> raises OverflowError.
\<close>

definition int_quot :: "real \<Rightarrow> real \<Rightarrow> py_error + int" where
  "int_quot c s = (if s = 0 then Inl OverflowError else Inr (py_int (c / s)))"

text \<open>\<open>np.min\<close> and \<open>np.max\<close> raise ValueError on an empty array.\<close>

definition np_min :: "'a::linorder list \<Rightarrow> py_error + 'a" where
  "np_min xs = (case xs of [] \<Rightarrow> Inl ValueError | x # r \<Rightarrow> Inr (fold min r x))"

definition np_max :: "'a::linorder list \<Rightarrow> py_error + 'a" where
  "np_max xs = (case xs of [] \<Rightarrow> Inl ValueError | x # r \<Rightarrow> Inr (fold max r x))"

text \<open>
  A basic slice \<open>a[lo:hi]\<close> of an axis of length \<open>n\<close> selects the indices
  \<open>slice_lo n lo \<le> i < slice_hi n hi\<close>: a negative bound counts from the end.
\<close>

definition slice_norm :: "int \<Rightarrow> int \<Rightarrow> int" where
  "slice_norm n b = (if b < 0 then max (b + n) 0 else min b n)"

definition in_slice :: "nat \<Rightarrow> int \<Rightarrow> int \<Rightarrow> nat \<Rightarrow> bool" where
  "in_slice n lo hi i \<longleftrightarrow> i < n \<and> slice_norm (int n) lo \<le> int i \<and> int i < slice_norm (int n) hi"

datatype log_level = INFO | WARNING

section \<open>crop\_with\_mask\<close>

datatype extention = Nrrd | NiiGz | OtherExt

text \<open>
  The object and the two files it names.  \<open>maskData\<close> is the mask array indexed
  \<open>[x][y][z]\<close>; \<open>imageShape\<close> is \<open>imageData.shape\<close>; \<open>imageSpacing\<close> holds the diagonal
  of the header's space directions (nrrd) or the zooms (nii.gz).
\<close>

record ImageCropping =
  extention :: extention
  imageOutname :: string
  maskOutname :: string
  maskData :: "int list list list"
  imageShape :: "nat \<times> nat \<times> nat"
  imageSpacing :: "real \<times> real \<times> real"

type_synonym crop_box = "(int \<times> int) \<times> (int \<times> int) \<times> (int \<times> int)"

datatype mask_msg = NotAMask | CroppingDone

text \<open>
  What a call leaves behind: the returned pair of names, the files written (name and
  the box that was sliced out) and the log records.
\<close>

record cwm_result =
  ret_image :: "string option"
  ret_mask :: "string option"
  written :: "(string \<times> crop_box) list"
  logged :: "(log_level \<times> mask_msg) list"

definition np_where_eq1 :: "int list list list \<Rightarrow> (nat \<times> nat \<times> nat) list" where
  "np_where_eq1 m =
     [(i, j, k). i \<leftarrow> [0..<length m], j \<leftarrow> [0..<length (m ! i)],
                 k \<leftarrow> [0..<length (m ! i ! j)], m ! i ! j ! k = 1]"

definition spacings :: "ImageCropping \<Rightarrow> py_error + (real \<times> real \<times> real)" where
  "spacings self =
     (case extention self of
        Nrrd \<Rightarrow> (case imageSpacing self of (sx, sy, sz) \<Rightarrow> Inr (\<bar>sx\<bar>, \<bar>sy\<bar>, \<bar>sz\<bar>))
      | NiiGz \<Rightarrow> Inr (imageSpacing self)
      | OtherExt \<Rightarrow> Inl UnboundLocalError)"

text \<open>Lines 77 to 79: the margin is added, then each end is clamped on its own side.\<close>

definition new_range :: "int \<Rightarrow> int \<Rightarrow> int \<Rightarrow> int \<Rightarrow> int \<times> int" where
  "new_range lo hi delta shape =
     (let n0 = lo - delta; n1 = hi + delta;
          n0 = (if n0 < 0 then 0 else n0);
          n1 = (if n1 > shape then shape else n1)
      in (n0, n1))"

definition crop_with_mask :: "ImageCropping \<Rightarrow> py_error + cwm_result" where
  "crop_with_mask self =
     ebind (spacings self) (\<lambda>(space_x, space_y, space_z).
     ebind (int_quot 10 space_x) (\<lambda>delta_x.
     ebind (int_quot 10 space_y) (\<lambda>delta_y.
     ebind (int_quot 10 space_z) (\<lambda>delta_z.
     let xyz = np_where_eq1 (maskData self);
         x = map (\<lambda>(i, j, k). int i) xyz;
         y = map (\<lambda>(i, j, k). int j) xyz;
         z = map (\<lambda>(i, j, k). int k) xyz
     in
     ebind (np_max (concat (concat (maskData self)))) (\<lambda>maskMax.
     ebind (np_min (concat (concat (maskData self)))) (\<lambda>maskMin.
     if maskMax > 1 \<and> maskMin < 0 then
       Inr \<lparr>ret_image = None, ret_mask = None, written = [],
            logged = [(INFO, NotAMask), (INFO, CroppingDone)]\<rparr>
     else
       ebind (np_min x) (\<lambda>min_x. ebind (np_max x) (\<lambda>max_x.
       ebind (np_min y) (\<lambda>min_y. ebind (np_max y) (\<lambda>max_y.
       ebind (np_min z) (\<lambda>min_z. ebind (np_max z) (\<lambda>max_z.
       case imageShape self of (shape0, shape1, shape2) \<Rightarrow>
       let new_x = new_range min_x max_x delta_x (int shape0);
           new_y = new_range min_y max_y delta_y (int shape1);
           new_z = new_range min_z max_z delta_z (int shape2);
           box = (new_x, new_y, new_z)
       in Inr \<lparr>ret_image = Some (imageOutname self), ret_mask = Some (maskOutname self),
               written = [(imageOutname self, box), (maskOutname self, box)],
               logged = [(INFO, CroppingDone)]\<rparr>))))))))))))"

section \<open>crop\_wo\_mask: detection\<close>

text \<open>
  \<open>cv2.connectedComponentsWithStats\<close> is a library call; its three results that the
  source reads are the number of labels (background included), the label image and
  the area column \<open>stats[:, -1]\<close>.
\<close>

record cc_result =
  nb_components :: nat
  cc_output :: "nat list list"
  area :: "nat list"

text \<open>
  Lines 168 to 174.  \<open>img2[output == l] = 1\<close> sets the pixels labelled \<open>l\<close>.  A zero
  spacing makes \<open>100 / space_x\<close> infinite, so that no size reaches it.
\<close>

definition set_label :: "nat list list \<Rightarrow> nat \<Rightarrow> nat list list \<Rightarrow> nat list list" where
  "set_label outp l img2 = map2 (map2 (\<lambda>lab v. if lab = l then 1 else v)) outp img2"

definition reaches_min_size :: "real \<Rightarrow> nat \<Rightarrow> bool" where
  "reaches_min_size space_x sz \<longleftrightarrow> space_x \<noteq> 0 \<and> real sz \<ge> 100 / space_x"

fun cc_loop :: "real \<Rightarrow> nat list list \<Rightarrow> nat list \<Rightarrow> nat list \<Rightarrow> nat list list
                \<Rightarrow> py_error + nat list list" where
  "cc_loop space_x outp sizes [] img2 = Inr img2"
| "cc_loop space_x outp sizes (i # r) img2 =
     (if i < length sizes then
        cc_loop space_x outp sizes r
          (if reaches_min_size space_x (sizes ! i) then set_label outp (i + 1) img2 else img2)
      else Inl IndexError)"

definition cc_filter :: "real \<Rightarrow> cc_result \<Rightarrow> py_error + nat list list" where
  "cc_filter space_x cc =
     (let sizes = tl (area cc);
          nb = nb_components cc - 1;
          img2 = map (map (\<lambda>_. 0)) (cc_output cc)
      in cc_loop space_x (cc_output cc) sizes [0..<nb] img2)"

text \<open>\<open>np.where(img2 != 0)\<close> on a 2-D array, in row-major order.\<close>

definition np_where_ne0 :: "nat list list \<Rightarrow> (nat \<times> nat) list" where
  "np_where_ne0 m = [(i, j). i \<leftarrow> [0..<length m], j \<leftarrow> [0..<length (m ! i)], m ! i ! j \<noteq> 0]"

text \<open>Lines 179 to 187: the Edge Extractor, from the array \<open>x\<close> of foreground rows.\<close>

fun run_breaks :: "int list \<Rightarrow> int list" where
  "run_breaks (a # b # r) = (if b \<noteq> a + 1 then [a, b] else []) @ run_breaks (b # r)"
| "run_breaks _ = []"

definition edge_list :: "int list \<Rightarrow> py_error + int list" where
  "edge_list x =
     (let uniq = sort (remdups x)
      in if uniq = [] then Inl IndexError
         else Inr (sort (remdups ([hd uniq] @ run_breaks uniq @ [last uniq]))))"

text \<open>
  The locals of \<open>crop_wo_mask\<close> that the orientation loop reads and writes.
  \<open>xx = None\<close> is the unbound local; \<open>proccess\<close> is the name assigned at line 210.
\<close>

record wo_state =
  process :: bool
  proccess :: "bool option"
  angle :: int
  counter :: nat
  mean_Z :: int
  indY :: "int option"
  xx :: "int list option"
  n_mice_detected :: "nat list"

text \<open>
  What \<open>crop_wo_mask\<close> takes from the object and its file: the output name, the shape
  of the volume, the diagonal of the header's space directions and, for the working
  angle, mid-depth index and offset of a detection step, the labelling that cv2
  returns for the thresholded slice (lines 154 to 167, which call scipy and cv2).
\<close>

record ct_file =
  outname :: string
  shape0 :: nat
  shape1 :: nat
  shape2 :: nat
  dir_x :: real
  dir_y :: real
  dir_z :: real
  labelling :: "int \<Rightarrow> int \<Rightarrow> int \<Rightarrow> cc_result"

definition valid_index :: "nat \<Rightarrow> int \<Rightarrow> bool" where
  "valid_index n i \<longleftrightarrow> - int n \<le> i \<and> i < int n"

text \<open>One step of the \<open>for offset\<close> loop, lines 157 to 190.\<close>

definition scan_offset :: "ct_file \<Rightarrow> int \<Rightarrow> wo_state \<Rightarrow> py_error + wo_state" where
  "scan_offset d offset st =
     (if \<not> valid_index (shape2 d) (mean_Z st + offset) then Inl IndexError
      else
        ebind (cc_filter \<bar>dir_x d\<bar> (labelling d (angle st) (mean_Z st) offset)) (\<lambda>img2.
        let xy = np_where_ne0 img2;
            x = map (\<lambda>(i, j). int i) xy;
            y = map (\<lambda>(i, j). int j) xy
        in if (\<exists>v \<in> set x. v \<noteq> 0) then
             ebind (np_max y) (\<lambda>max_y.
             ebind (edge_list x) (\<lambda>xx'.
               Inr (st\<lparr>indY := (if indY st = None \<and> offset = 0 then Some max_y else indY st),
                       xx := Some xx',
                       n_mice_detected := n_mice_detected st @ [length xx' div 2]\<rparr>)))
           else Inr (st\<lparr>n_mice_detected := n_mice_detected st @ [0]\<rparr>)))"

fun scan :: "ct_file \<Rightarrow> int list \<Rightarrow> wo_state \<Rightarrow> py_error + wo_state" where
  "scan d [] st = Inr st"
| "scan d (offset # r) st =
     (case scan_offset d offset st of Inl e \<Rightarrow> Inl e | Inr st' \<Rightarrow> scan d r st')"

definition offsets :: "int list" where
  "offsets = [20, 10, 0, -10, -15]"

text \<open>Line 191.\<close>

definition stable :: "nat list \<Rightarrow> bool" where
  "stable ns \<longleftrightarrow> card (set ns) = 1 \<or> (card (set ns) = 2 \<and> 0 \<in> set ns)"

text \<open>Lines 194 to 205: one rotation retry.\<close>

definition retry :: "wo_state \<Rightarrow> wo_state" where
  "retry st =
     (let st = st\<lparr>angle := angle st - 2\<rparr>;
          st = st\<lparr>n_mice_detected := [], indY := None\<rparr>;
          st = st\<lparr>counter := counter st + 1\<rparr>
      in if counter st mod 2 = 0 then st\<lparr>mean_Z := mean_Z st - 10\<rparr> else st)"

text \<open>Lines 206 to 211: the budget is spent.\<close>

definition give_up :: "wo_state \<Rightarrow> wo_state" where
  "give_up st = st\<lparr>proccess := Some False\<rparr>"

text \<open>The \<open>while not_correct\<close> loop, lines 153 to 211.\<close>

function orientation_loop :: "ct_file \<Rightarrow> wo_state \<Rightarrow> py_error + wo_state" where
  "orientation_loop d st =
     (case scan d offsets st of
        Inl e \<Rightarrow> Inl e
      | Inr st' \<Rightarrow>
          if stable (n_mice_detected st') then Inr st'
          else if counter st' < 8 then orientation_loop d (retry st')
          else Inr (give_up st'))"
  by pat_completeness auto
termination
proof (relation "measure (\<lambda>(d, st). 8 - counter st)")
  show "wf (measure (\<lambda>(d, st). 8 - counter st))" by simp
next
  fix d :: ct_file and st st' :: wo_state
  assume run: "scan d offsets st = Inr st'" and budget: "counter st' < 8"
  have step: "counter b = counter a" if "scan_offset d off a = Inr b" for off a b
    using that
    by (auto simp: scan_offset_def ebind_def Let_def split: if_splits sum.splits)
  have pass: "counter b = counter a" if "scan d os a = Inr b" for os a b
    using that
  proof (induction os arbitrary: a)
    case Nil
    then show ?case by simp
  next
    case (Cons off os)
    then show ?case by (auto split: sum.splits dest: step)
  qed
  from pass [OF run] budget
  show "((d, retry st'), (d, st)) \<in> measure (\<lambda>(d, st). 8 - counter st)"
    by (auto simp: retry_def Let_def)
qed

section \<open>crop\_wo\_mask: naming\<close>

definition MOUSE_NAMES :: "string list" where
  "MOUSE_NAMES = [''mouse_01'', ''mouse_02'', ''mouse_03'',
                  ''mouse_04'', ''mouse_05'', ''mouse_06'']"

text \<open>\<open>l[i]\<close>: a negative index counts from the end; out of range raises IndexError.\<close>

definition py_get :: "'a list \<Rightarrow> int \<Rightarrow> py_error + 'a" where
  "py_get l i =
     (let n = int (length l); j = (if i < 0 then n + i else i)
      in if 0 \<le> j \<and> j < n then Inr (l ! nat j) else Inl IndexError)"

text \<open>The elements \<open>l[i]\<close> for \<open>i\<close> in a list of indices, appended one by one.\<close>

fun py_gets :: "'a list \<Rightarrow> int list \<Rightarrow> py_error + 'a list" where
  "py_gets l [] = Inr []"
| "py_gets l (i # r) =
     (case py_get l i of
        Inl e \<Rightarrow> Inl e
      | Inr v \<Rightarrow> (case py_gets l r of Inl e \<Rightarrow> Inl e | Inr vs \<Rightarrow> Inr (v # vs)))"

text \<open>\<open>range(k)\<close>, empty when \<open>k \<le> 0\<close>.\<close>

definition py_range :: "int \<Rightarrow> int list" where
  "py_range k = map int [0..<nat k]"

text \<open>\<open>l.remove(a)\<close> removes the first occurrence and raises ValueError when there is none.\<close>

definition py_remove :: "'a \<Rightarrow> 'a list \<Rightarrow> py_error + 'a list" where
  "py_remove a l = (if a \<in> set l then Inr (remove1 a l) else Inl ValueError)"

text \<open>\<open>for ind in names2remove: image_names.remove(ind)\<close>.\<close>

fun remove_all :: "'a list \<Rightarrow> 'a list \<Rightarrow> py_error + 'a list" where
  "remove_all [] l = Inr l"
| "remove_all (a # r) l =
     (case py_remove a l of Inl e \<Rightarrow> Inl e | Inr l' \<Rightarrow> remove_all r l')"

text \<open>\<open>np.round\<close> rounds a half to the even neighbour.\<close>

definition np_round :: "real \<Rightarrow> int" where
  "np_round r =
     (let f = \<lfloor>r\<rfloor>; d = r - of_int f
      in if d < 1 / 2 then f else if d > 1 / 2 then f + 1
         else if even f then f else f + 1)"

text \<open>
  \<open>int(np.round(a / b))\<close> for a numpy integer \<open>a\<close>: a zero \<open>b\<close> gives an infinity or a
  nan, on which \<open>int\<close> raises OverflowError or ValueError.
\<close>

definition int_round_quot :: "int \<Rightarrow> real \<Rightarrow> py_error + int" where
  "int_round_quot a b =
     (if b = 0 then (if a = 0 then Inl ValueError else Inl OverflowError)
      else Inr (np_round (real_of_int a / b)))"

text \<open>The locals of the naming stage; \<open>edges\<close> below is the final list \<open>xx\<close>.\<close>

record naming =
  image_names :: "string list"
  names2remove :: "string list"
  hole_found :: int
  missing_at_edge :: bool
  mouse_distances :: "int list"

text \<open>Lines 233 to 244.\<close>

definition left_edge :: "int \<Rightarrow> int \<Rightarrow> int \<Rightarrow> naming \<Rightarrow> py_error + naming" where
  "left_edge first_edge min_first_edge min_size_x nm =
     (if first_edge > min_first_edge then
        ebind (int_round_quot (first_edge - min_first_edge) (real_of_int (min_size_x * 2)))
          (\<lambda>missing_left.
        if missing_left > 0 then
          ebind (py_gets (image_names nm) (py_range missing_left)) (\<lambda>names.
          Inr (nm\<lparr>names2remove := names2remove nm @ names,
                  hole_found := hole_found nm + missing_left,
                  missing_at_edge := True\<rparr>))
        else Inr nm)
      else Inr nm)"

text \<open>Lines 245 to 256.\<close>

definition right_edge :: "int \<Rightarrow> int \<Rightarrow> int \<Rightarrow> naming \<Rightarrow> py_error + naming" where
  "right_edge last_edge min_last_edge min_size_x nm =
     (if last_edge < min_last_edge then
        ebind (int_round_quot (min_last_edge - last_edge) (real_of_int (min_size_x * 2)))
          (\<lambda>missing_right.
        if missing_right > 0 then
          ebind (py_gets (image_names nm) (map (\<lambda>m. - 1 - m) (py_range missing_right)))
            (\<lambda>names.
          Inr (nm\<lparr>names2remove := names2remove nm @ names,
                  hole_found := hole_found nm + missing_right,
                  missing_at_edge := True\<rparr>))
        else Inr nm)
      else Inr nm)"

text \<open>Lines 257 and 258.\<close>

definition remove_edge_names :: "naming \<Rightarrow> py_error + naming" where
  "remove_edge_names nm =
     ebind (remove_all (names2remove nm) (image_names nm)) (\<lambda>names.
     Inr (nm\<lparr>image_names := names\<rparr>))"

text \<open>Lines 259 to 270.\<close>

definition short_span :: "int \<Rightarrow> int \<Rightarrow> int \<Rightarrow> int \<Rightarrow> int \<Rightarrow> naming \<Rightarrow> py_error + naming" where
  "short_span first_edge last_edge min_first_edge min_last_edge min_size_x nm =
     (if real_of_int (last_edge - first_edge)
           < 6 * real_of_int min_size_x + 5 * (real_of_int min_size_x / (13 / 10))
         \<and> \<not> missing_at_edge nm
      then
        ebind (py_remove (if first_edge - min_first_edge \<ge> min_last_edge - last_edge
                          then ''mouse_01'' else ''mouse_06'') (image_names nm)) (\<lambda>names.
        Inr (nm\<lparr>image_names := names, hole_found := hole_found nm + 1\<rparr>))
      else Inr nm)"

text \<open>
  Lines 274 to 291, the body of the loop over the gaps: \<open>i\<close> counts the gaps and
  \<open>ind = 2 i + 1\<close> is the index of the edge that closes region \<open>i\<close>; \<open>ind + 1\<close> is below
  \<open>len(xx)\<close> by the bound of the range.
\<close>

definition gap_step :: "int \<Rightarrow> int list \<Rightarrow> nat \<Rightarrow> naming \<Rightarrow> py_error + naming" where
  "gap_step min_size_x edges i nm =
     (let ind = 2 * i + 1 in
      ebind (py_get (image_names nm) (int i)) (\<lambda>mouse_index.
      let distance = edges ! (ind + 1) - edges ! ind;
          nm = nm\<lparr>mouse_distances := mouse_distances nm @ [distance]\<rparr>
      in
      ebind (int_round_quot distance (real_of_int min_size_x * (3 / 2))) (\<lambda>hole_dimension.
      if hole_dimension \<ge> 2 then
        ebind (py_get (image_names nm) (int i + 1)) (\<lambda>next_mouse.
        ebind (py_gets (image_names nm)
                 (map (\<lambda>m. int i + m + 1) (py_range (hole_dimension - 1)))) (\<lambda>names.
        ebind (remove_all names (image_names nm)) (\<lambda>names'.
        Inr (nm\<lparr>names2remove := names, image_names := names',
                hole_found := hole_found nm + 1\<rparr>))))
      else Inr nm)))"

fun gap_loop :: "int \<Rightarrow> int list \<Rightarrow> nat list \<Rightarrow> naming \<Rightarrow> py_error + naming" where
  "gap_loop min_size_x edges [] nm = Inr nm"
| "gap_loop min_size_x edges (i # r) nm =
     (case gap_step min_size_x edges i nm of
        Inl e \<Rightarrow> Inl e
      | Inr nm' \<Rightarrow> gap_loop min_size_x edges r nm')"

text \<open>The number of steps of \<open>range(1, len(xx) - 1, 2)\<close>.\<close>

definition n_gaps :: "int list \<Rightarrow> nat" where
  "n_gaps edges = (length edges - 1) div 2"

text \<open>
  Lines 301 to 305: \<open>still_missing\<close> times, the name after the widest gap is put on
  the removal list and that gap is zeroed.
\<close>

fun widest_gaps :: "nat \<Rightarrow> naming \<Rightarrow> py_error + naming" where
  "widest_gaps 0 nm = Inr nm"
| "widest_gaps (Suc k) nm =
     (case np_max (mouse_distances nm) of
        Inl e \<Rightarrow> Inl e
      | Inr mx \<Rightarrow>
          let max_distance = length (takeWhile (\<lambda>v. v \<noteq> mx) (mouse_distances nm)) in
          (case py_get (image_names nm) (int max_distance + 1) of
             Inl e \<Rightarrow> Inl e
           | Inr name \<Rightarrow>
               widest_gaps k
                 (nm\<lparr>names2remove := names2remove nm @ [name],
                     mouse_distances := (mouse_distances nm)[max_distance := 0]\<rparr>)))"

text \<open>Lines 292 to 307.\<close>

definition still_missing_step :: "int list \<Rightarrow> naming \<Rightarrow> py_error + naming" where
  "still_missing_step edges nm =
     (if hole_found nm + int (length edges div 2) \<noteq> 6 then
        let nm = nm\<lparr>names2remove := []\<rparr>;
            still_missing = 6 - (hole_found nm + int (length edges div 2))
        in ebind (widest_gaps (nat still_missing) nm) (\<lambda>nm.
           ebind (remove_all (names2remove nm) (image_names nm)) (\<lambda>names.
           Inr (nm\<lparr>image_names := names\<rparr>)))
      else Inr nm)"

text \<open>Lines 227 to 307: the names when \<open>accurate_naming\<close> is set.\<close>

definition accurate_names :: "int \<Rightarrow> int \<Rightarrow> int \<Rightarrow> int list \<Rightarrow> py_error + naming" where
  "accurate_names min_first_edge min_last_edge min_size_x edges =
     (let nm = \<lparr>image_names = MOUSE_NAMES, names2remove = [], hole_found = 0,
                missing_at_edge = False, mouse_distances = []\<rparr>
      in
      ebind (py_get edges 0) (\<lambda>first_edge.
      ebind (py_get edges (- 1)) (\<lambda>last_edge.
      ebind (left_edge first_edge min_first_edge min_size_x nm) (\<lambda>nm.
      ebind (right_edge last_edge min_last_edge min_size_x nm) (\<lambda>nm.
      ebind (remove_edge_names nm) (\<lambda>nm.
      ebind (short_span first_edge last_edge min_first_edge min_last_edge min_size_x nm)
        (\<lambda>nm.
      ebind (gap_loop min_size_x edges [0..<n_gaps edges] nm) (\<lambda>nm.
      still_missing_step edges nm))))))))"

section \<open>crop\_wo\_mask: cropping\<close>

text \<open>\<open>'{}'.format(n)\<close> for a natural number: its decimal digits.\<close>

fun str_nat :: "nat \<Rightarrow> string" where
  "str_nat n =
     (if n < 10 then [char_of (48 + n)]
      else str_nat (n div 10) @ [char_of (48 + n mod 10)])"

text \<open>Line 310.\<close>

definition sequential_names :: "int list \<Rightarrow> string list" where
  "sequential_names edges = map (\<lambda>x. ''subject_0'' @ str_nat (x + 1)) [0..<length edges div 2]"

text \<open>
  What one pass of the loop of lines 312 to 328 writes: the pickled coordinates and
  the volume, with the bounds \<open>im\<close> was sliced with.
\<close>

record cropped =
  pickle_file :: string
  coordinates :: crop_box
  nrrd_file :: string
  slice_box :: crop_box

text \<open>
  The sizes computed at lines 127 to 139, which later stages read.
\<close>

record sizes =
  min_first_edge :: int
  min_last_edge :: int
  min_size_x :: int
  min_size_y :: int
  min_size_z :: int

text \<open>
  Lines 313 to 328 for region \<open>n_mice\<close>, with \<open>i = 2 n_mice\<close>; \<open>i + 1\<close> is below
  \<open>len(xx)\<close> because the length is even by then.
\<close>

definition crop_step ::
  "ct_file \<Rightarrow> sizes \<Rightarrow> wo_state \<Rightarrow> string list \<Rightarrow> int list \<Rightarrow> nat \<Rightarrow> py_error + cropped" where
  "crop_step d sz st names edges n_mice =
     (let i = 2 * n_mice;
          mp = py_int (real_of_int (edges ! (i + 1) + edges ! i) / 2)
      in case indY st of
           None \<Rightarrow> Inl TypeError
         | Some iy \<Rightarrow>
             let y0 = (if iy - min_size_y sz > 0 then iy - min_size_y sz else 0);
                 half_z = py_int (real_of_int (min_size_z sz) / 2);
                 half_x = py_int (real_of_int (min_size_x sz) / 2);
                 z = (mean_Z st - half_z, mean_Z st + half_z)
             in ebind (py_get names (int n_mice)) (\<lambda>name.
                Inr \<lparr>pickle_file = outname d @ ''_'' @ name @ ''.p'',
                     coordinates = ((mp - half_x, mp + half_x), (y0, iy), z),
                     nrrd_file = outname d @ ''_'' @ name @ ''.nrrd'',
                     slice_box = ((edges ! i, edges ! (i + 1)), (y0, iy), z)\<rparr>))"

fun crop_loop ::
  "ct_file \<Rightarrow> sizes \<Rightarrow> wo_state \<Rightarrow> string list \<Rightarrow> int list \<Rightarrow> nat list
     \<Rightarrow> py_error + cropped list" where
  "crop_loop d sz st names edges [] = Inr []"
| "crop_loop d sz st names edges (n_mice # r) =
     (case crop_step d sz st names edges n_mice of
        Inl e \<Rightarrow> Inl e
      | Inr c \<Rightarrow>
          (case crop_loop d sz st names edges r of
             Inl e \<Rightarrow> Inl e
           | Inr cs \<Rightarrow> Inr (c # cs)))"

text \<open>Lines 119 to 143.\<close>

definition compute_sizes :: "ct_file \<Rightarrow> py_error + (sizes \<times> int option)" where
  "compute_sizes d =
     ebind (int_quot 63 \<bar>dir_x d\<bar>) (\<lambda>edge_margin.
     ebind (int_quot 17 \<bar>dir_x d\<bar>) (\<lambda>sx.
     ebind (int_quot 30 \<bar>dir_y d\<bar>) (\<lambda>sy.
     ebind (int_quot 45 \<bar>dir_z d\<bar>) (\<lambda>sz.
     Inr (\<lparr>min_first_edge = edge_margin,
           min_last_edge = int (shape0 d) - edge_margin,
           min_size_x = (if sx > int (shape0 d) then int (shape0 d) else sx),
           min_size_y = (if sy > int (shape1 d) then int (shape1 d) else sy),
           min_size_z = (if sz > int (shape2 d) then int (shape2 d) else sz)\<rparr>,
          (if sy > int (shape1 d) then Some (int (shape1 d)) else None))))))"

text \<open>The locals before the loop, lines 123 to 152; \<open>mean_Z = int(np.ceil(dimZ / 2))\<close>.\<close>

definition initial_state :: "ct_file \<Rightarrow> int option \<Rightarrow> wo_state" where
  "initial_state d iy =
     \<lparr>process = True, proccess = None, angle = 0, counter = 0,
      mean_Z = \<lceil>real (shape2 d) / 2\<rceil>, indY = iy, xx = None, n_mice_detected = []\<rparr>"

text \<open>Lines 219 to 225: an odd list of edges loses its last element.\<close>

definition drop_odd_edge :: "int list \<Rightarrow> int list" where
  "drop_odd_edge edges = (if length edges mod 2 \<noteq> 0 then remove1 (last edges) edges else edges)"

record wo_result =
  out :: "string list"
  files :: "cropped list"

text \<open>Lines 213 to 331, after the loop.\<close>

definition crop_detected :: "ct_file \<Rightarrow> bool \<Rightarrow> sizes \<Rightarrow> wo_state \<Rightarrow> py_error + wo_result" where
  "crop_detected d accurate_naming sz st =
     (if process st then
        (case xx st of
           None \<Rightarrow> Inl UnboundLocalError
         | Some edges0 \<Rightarrow>
             let edges = drop_odd_edge edges0 in
             ebind (if accurate_naming then
                      ebind (accurate_names (min_first_edge sz) (min_last_edge sz)
                               (min_size_x sz) edges) (\<lambda>nm. Inr (image_names nm))
                    else Inr (sequential_names edges)) (\<lambda>names.
             ebind (crop_loop d sz st names edges [0..<length edges div 2]) (\<lambda>cs.
             Inr \<lparr>out = map nrrd_file cs, files = cs\<rparr>)))
      else Inr \<lparr>out = [], files = []\<rparr>)"

definition crop_wo_mask :: "ct_file \<Rightarrow> bool \<Rightarrow> py_error + wo_result" where
  "crop_wo_mask d accurate_naming =
     ebind (compute_sizes d) (\<lambda>(sz, iy).
     ebind (orientation_loop d (initial_state d iy)) (\<lambda>st.
     crop_detected d accurate_naming sz st))"

section \<open>Concrete inputs\<close>

text \<open>
  A mask with one voxel equal to 1, at x = 1, on a 3 x 1 x 1 grid whose x spacing is 20
  units per voxel, so that \<open>int(10 / 20) = 0\<close> voxels of margin are added along x.
\<close>

definition thick_slab :: ImageCropping where
  "thick_slab =
     \<lparr>extention = Nrrd, imageOutname = ''img_cropped.nrrd'',
      maskOutname = ''mask_cropped.nrrd'',
      maskData = [[[0]], [[1]], [[0]]], imageShape = (3, 1, 1), imageSpacing = (20, 1, 1)\<rparr>"

text \<open>A mask holding the values 2 and -1, on a well-formed image.\<close>

definition not_binary :: ImageCropping where
  "not_binary =
     \<lparr>extention = Nrrd, imageOutname = ''img_cropped.nrrd'',
      maskOutname = ''mask_cropped.nrrd'',
      maskData = [[[2, -1]]], imageShape = (1, 1, 2), imageSpacing = (1, 1, 1)\<rparr>"

text \<open>
  The same mask on an image whose space directions have a zero on the diagonal (the
  axes of the volume are permuted in the header).
\<close>

definition not_binary_permuted :: ImageCropping where
  "not_binary_permuted = not_binary\<lparr>imageSpacing := (0, 1, 1)\<rparr>"

text \<open>An all-zero mask: it passes the check of line 71 and has no voxel equal to 1.\<close>

definition all_zero_mask :: ImageCropping where
  "all_zero_mask =
     \<lparr>extention = Nrrd, imageOutname = ''img_cropped.nrrd'',
      maskOutname = ''mask_cropped.nrrd'',
      maskData = [[[0, 0]]], imageShape = (1, 1, 2), imageSpacing = (1, 1, 1)\<rparr>"

text \<open>
  Labellings of a 12 x 5 slice: rows 2 and 3 form one component of 10 pixels; with a
  second component in rows 6 and 7; and with no foreground at all.
\<close>

definition one_blob :: cc_result where
  "one_blob = \<lparr>nb_components = 2,
     cc_output = [[0,0,0,0,0],[0,0,0,0,0],[1,1,1,1,1],[1,1,1,1,1],[0,0,0,0,0],[0,0,0,0,0],
                  [0,0,0,0,0],[0,0,0,0,0],[0,0,0,0,0],[0,0,0,0,0],[0,0,0,0,0],[0,0,0,0,0]],
     area = [50, 10]\<rparr>"

definition two_blobs :: cc_result where
  "two_blobs = \<lparr>nb_components = 3,
     cc_output = [[0,0,0,0,0],[0,0,0,0,0],[1,1,1,1,1],[1,1,1,1,1],[0,0,0,0,0],[0,0,0,0,0],
                  [2,2,2,2,2],[2,2,2,2,2],[0,0,0,0,0],[0,0,0,0,0],[0,0,0,0,0],[0,0,0,0,0]],
     area = [40, 10, 10]\<rparr>"

definition no_blob :: cc_result where
  "no_blob = \<lparr>nb_components = 1, cc_output = replicate 12 (replicate 5 0), area = [60]\<rparr>"

text \<open>
  A 12 x 5 x 100 volume of 10-unit voxels in which the slice 20 above mid-depth shows
  two subjects and the other four slices show one, whatever the rotation.
\<close>

definition drifting :: ct_file where
  "drifting = \<lparr>outname = ''ct_cropped'', shape0 = 12, shape1 = 5, shape2 = 100,
     dir_x = 10, dir_y = 10, dir_z = 10,
     labelling = (\<lambda>angle mean_Z offset. if offset = 20 then two_blobs else one_blob)\<rparr>"

text \<open>
  A 12 x 5 x 60 volume, 1 unit deep per voxel, whose slices disagree in the same way
  until the rotation reaches 4 degrees, and agree on one subject from then on.
\<close>

definition tilted :: ct_file where
  "tilted = \<lparr>outname = ''ct_cropped'', shape0 = 12, shape1 = 5, shape2 = 60,
     dir_x = 10, dir_y = 10, dir_z = 1,
     labelling = (\<lambda>angle mean_Z offset.
                    if offset = 20 \<and> angle > - 4 then two_blobs else one_blob)\<rparr>"

text \<open>A 12 x 5 x 100 volume in which no slice has any foreground.\<close>

definition blank :: ct_file where
  "blank = \<lparr>outname = ''ct_cropped'', shape0 = 12, shape1 = 5, shape2 = 100,
     dir_x = 10, dir_y = 10, dir_z = 10,
     labelling = (\<lambda>angle mean_Z offset. no_blob)\<rparr>"

section \<open>Properties of crop\_with\_mask\<close>

lemmas cwm_defs = crop_with_mask_def spacings_def int_quot_def py_int_def ebind_def
  np_where_eq1_def np_min_def np_max_def new_range_def Let_def

text \<open>
  Claim C5.  The crop box of \<open>crop_with_mask\<close> should contain every voxel of the mask
  that equals 1.  On \<open>thick_slab\<close> the function writes both files with the x range
  \<open>[1:1]\<close>, which is empty: the only foreground voxel, at x = 1, is not in the crop.
  The upper end of each range is \<open>max + delta\<close> and the slice excludes its upper end,
  so the margin above is one voxel short of the margin below.
\<close>

theorem crop_with_mask_loses_foreground:
  "crop_with_mask thick_slab =
     Inr \<lparr>ret_image = Some ''img_cropped.nrrd'', ret_mask = Some ''mask_cropped.nrrd'',
          written = [(''img_cropped.nrrd'', (1, 1), (0, 1), (0, 1)),
                     (''mask_cropped.nrrd'', (1, 1), (0, 1), (0, 1))],
          logged = [(INFO, CroppingDone)]\<rparr>
   \<and> (1, 0, 0) \<in> set (np_where_eq1 (maskData thick_slab))
   \<and> \<not> in_slice 3 1 1 1"
  by (simp add: thick_slab_def cwm_defs in_slice_def slice_norm_def upt_conv_Cons)

text \<open>
  Claim C6, as stated, fails in two ways.  The record written for a mask that is not
  binary has level INFO, not WARNING; and when the header's diagonal has a zero, line
  63 raises before the mask is looked at.
\<close>

theorem not_binary_counterexample:
  "crop_with_mask not_binary =
     Inr \<lparr>ret_image = None, ret_mask = None, written = [],
          logged = [(INFO, NotAMask), (INFO, CroppingDone)]\<rparr>
   \<and> WARNING \<notin> fst ` set [(INFO, NotAMask), (INFO, CroppingDone)]
   \<and> np_max (concat (concat (maskData not_binary_permuted))) = Inr 2
   \<and> np_min (concat (concat (maskData not_binary_permuted))) = Inr (- 1)
   \<and> crop_with_mask not_binary_permuted = Inl OverflowError"
  by (simp add: not_binary_def not_binary_permuted_def cwm_defs upt_conv_Cons)

text \<open>
  Claim C6, amended.  For an image of a supported format with no zero spacing, a mask
  whose maximum exceeds 1 and whose minimum is below 0 makes \<open>crop_with_mask\<close> return
  \<open>None\<close> for both names and write no file; the record it logs has level INFO.
\<close>

theorem not_binary_skipped:
  assumes "np_max (concat (concat (maskData self))) = Inr mx"
    and "np_min (concat (concat (maskData self))) = Inr mn"
    and "mx > 1" and "mn < 0"
    and "extention self \<noteq> OtherExt"
    and "imageSpacing self = (sx, sy, sz)" and "sx \<noteq> 0" and "sy \<noteq> 0" and "sz \<noteq> 0"
  shows "crop_with_mask self =
           Inr \<lparr>ret_image = None, ret_mask = None, written = [],
                logged = [(INFO, NotAMask), (INFO, CroppingDone)]\<rparr>"
  using assms
  by (cases "extention self")
     (simp_all add: crop_with_mask_def spacings_def int_quot_def ebind_def Let_def)

theorem not_binary_skipped_witness:
  "crop_with_mask not_binary =
     Inr \<lparr>ret_image = None, ret_mask = None, written = [],
          logged = [(INFO, NotAMask), (INFO, CroppingDone)]\<rparr>"
proof -
  have a: "np_max (concat (concat (maskData not_binary))) = Inr 2"
    by (simp add: not_binary_def np_max_def)
  have b: "np_min (concat (concat (maskData not_binary))) = Inr (- 1)"
    by (simp add: not_binary_def np_min_def)
  have c: "extention not_binary \<noteq> OtherExt" "imageSpacing not_binary = (1, 1, 1)"
    by (simp_all add: not_binary_def)
  show ?thesis
    using not_binary_skipped [OF a b _ _ c] by simp
qed

text \<open>
  Claim C10.  A mask that passes the check of line 71 and has no voxel equal to 1 is
  not skipped: the call raises.  When the format is supported and no spacing is zero,
  the exception is the ValueError of \<open>np.min\<close> on the empty coordinate array (or of
  \<open>np.max\<close> on an empty mask).
\<close>

theorem no_foreground_raises:
  assumes "np_where_eq1 (maskData self) = []"
    and "\<not> (\<exists>mx mn. np_max (concat (concat (maskData self))) = Inr mx
                   \<and> np_min (concat (concat (maskData self))) = Inr mn
                   \<and> mx > 1 \<and> mn < 0)"
  shows "isl (crop_with_mask self)
       \<and> (extention self \<noteq> OtherExt
            \<and> 0 \<notin> {fst (imageSpacing self), fst (snd (imageSpacing self)),
                      snd (snd (imageSpacing self))}
          \<longrightarrow> crop_with_mask self = Inl ValueError)"
proof -
  obtain sx sy sz where sp: "imageSpacing self = (sx, sy, sz)"
    by (cases "imageSpacing self") auto
  have emp: "np_min ([] :: int list) = Inl ValueError"
    by (simp add: np_min_def)
  have "np_max xs = Inl ValueError \<or> (\<exists>v. np_max xs = Inr v)" for xs :: "int list"
    by (cases xs) (simp_all add: np_max_def)
  then have mx: "np_max (concat (concat (maskData self))) = Inl ValueError
            \<or> (\<exists>v. np_max (concat (concat (maskData self))) = Inr v)" .
  have "np_min xs = Inl ValueError \<or> (\<exists>v. np_min xs = Inr v)" for xs :: "int list"
    by (cases xs) (simp_all add: np_min_def)
  then have mn: "np_min (concat (concat (maskData self))) = Inl ValueError
            \<or> (\<exists>v. np_min (concat (concat (maskData self))) = Inr v)" .
  from mx mn assms sp emp show ?thesis
    by (cases "extention self")
       (auto simp: crop_with_mask_def ebind_def Let_def spacings_def int_quot_def)
qed

theorem no_foreground_raises_witness:
  "isl (crop_with_mask all_zero_mask) \<and> crop_with_mask all_zero_mask = Inl ValueError"
proof -
  have a: "np_where_eq1 (maskData all_zero_mask) = []"
    by (simp add: all_zero_mask_def np_where_eq1_def upt_conv_Cons)
  have b: "\<not> (\<exists>mx mn. np_max (concat (concat (maskData all_zero_mask))) = Inr mx
                   \<and> np_min (concat (concat (maskData all_zero_mask))) = Inr mn
                   \<and> mx > 1 \<and> mn < 0)"
    by (simp add: all_zero_mask_def np_max_def np_min_def)
  have c: "extention all_zero_mask \<noteq> OtherExt
            \<and> 0 \<notin> {fst (imageSpacing all_zero_mask), fst (snd (imageSpacing all_zero_mask)),
                      snd (snd (imageSpacing all_zero_mask))}"
    by (simp add: all_zero_mask_def)
  show ?thesis
    using no_foreground_raises [OF a b] c by blast
qed

section \<open>Properties of crop\_wo\_mask: evaluations\<close>

text \<open>
  Claim C2.  When the retry budget is spent without the counts stabilising, no crop
  should be emitted.  On \<open>drifting\<close> the loop stops after 8 retries, at 16 degrees,
  through the branch of line 206; that branch assigns \<open>proccess\<close>, so \<open>process\<close> is still
  true and the edges of the last pass are cropped: with sequential names one volume and
  one coordinate record are written and returned; with accurate naming the naming
  stage raises ValueError at line 302.
\<close>

theorem exhausted_budget_still_crops:
  "orientation_loop drifting (initial_state drifting None) =
     Inr \<lparr>process = True, proccess = Some False, angle = - 16, counter = 8,
          mean_Z = 10, indY = Some 4, xx = Some [2, 3],
          n_mice_detected = [2, 1, 1, 1, 1]\<rparr>
   \<and> \<not> stable [2, 1, 1, 1, 1]
   \<and> crop_wo_mask drifting False =
     Inr \<lparr>out = [''ct_cropped_subject_01.nrrd''],
          files = [\<lparr>pickle_file = ''ct_cropped_subject_01.p'',
                    coordinates = ((2, 2), (1, 4), (8, 12)),
                    nrrd_file = ''ct_cropped_subject_01.nrrd'',
                    slice_box = ((2, 3), (1, 4), (8, 12))\<rparr>]\<rparr>
   \<and> crop_wo_mask drifting True = Inl ValueError"
  by code_simp

text \<open>
  Claim C3.  A volume whose slices are all background should give an empty output
  list without an error.  On \<open>blank\<close> every offset counts 0 subjects, the loop accepts
  the counts as stable and \<open>process\<close> stays true; \<open>xx\<close> was never assigned, so line 219
  raises UnboundLocalError, with either naming.
\<close>

theorem all_background_raises:
  "orientation_loop blank (initial_state blank None) =
     Inr \<lparr>process = True, proccess = None, angle = 0, counter = 0,
          mean_Z = 50, indY = None, xx = None, n_mice_detected = [0, 0, 0, 0, 0]\<rparr>
   \<and> crop_wo_mask blank True = Inl UnboundLocalError
   \<and> crop_wo_mask blank False = Inl UnboundLocalError"
  by code_simp

text \<open>
  Claim C4.  The bounds used to slice the volume should lie within its extents.  On
  \<open>tilted\<close> the second retry moves \<open>mean_Z\<close> from 30 to 20 while the half depth stays
  \<open>int(45 / 2) = 22\<close>, so the volume is sliced with \<open>[-2:42]\<close> along z: the lower bound is
  negative, and on an axis of length 60 that slice is empty.
\<close>

theorem z_bounds_leave_volume:
  "crop_wo_mask tilted False =
     Inr \<lparr>out = [''ct_cropped_subject_01.nrrd''],
          files = [\<lparr>pickle_file = ''ct_cropped_subject_01.p'',
                    coordinates = ((2, 2), (1, 4), (- 2, 42)),
                    nrrd_file = ''ct_cropped_subject_01.nrrd'',
                    slice_box = ((2, 3), (1, 4), (- 2, 42))\<rparr>]\<rparr>
   \<and> \<not> (0 \<le> fst (- 2 :: int, 42 :: int))
   \<and> (\<forall>k. \<not> in_slice (shape2 tilted) (- 2) 42 k)"
proof -
  have "crop_wo_mask tilted False =
     Inr \<lparr>out = [''ct_cropped_subject_01.nrrd''],
          files = [\<lparr>pickle_file = ''ct_cropped_subject_01.p'',
                    coordinates = ((2, 2), (1, 4), (- 2, 42)),
                    nrrd_file = ''ct_cropped_subject_01.nrrd'',
                    slice_box = ((2, 3), (1, 4), (- 2, 42))\<rparr>]\<rparr>"
    by code_simp
  moreover have "\<not> in_slice (shape2 tilted) (- 2) 42 k" for k
    by (simp add: tilted_def in_slice_def slice_norm_def)
  ultimately show ?thesis by simp
qed

end
